theory Spec2Isabelle
  imports Main
begin

section \<open>Exceptions seen by the delivery context\<close>

text \<open>
  Modelled from the spec: the module \<^verbatim>\<open>faststream.exceptions\<close> is not among the sources;
  \<^verbatim>\<open>push_back_watcher.py\<close> imports from it the classes \<^verbatim>\<open>SkipMessage\<close>,
  \<^verbatim>\<open>HandlerException\<close>, \<^verbatim>\<open>AckMessage\<close>, \<^verbatim>\<open>NackMessage\<close> and \<^verbatim>\<open>RejectMessage\<close>.
  The spec describes four outcome signals (ack, nack, reject, skip) raised by handler code;
  the source tests \<^verbatim>\<open>SkipMessage\<close> on its own and the other three below the common
  base \<^verbatim>\<open>HandlerException\<close>. An exception value is identified with its class:
  \<open>HandlerException\<close> stands for an instance of the base class that is none of the three
  subclasses, \<open>OtherException\<close> for every exception outside the taxonomy.
\<close>

datatype exception =
    SkipMessage
  | HandlerException
  | AckMessage
  | NackMessage
  | RejectMessage
  | OtherException string

fun isinstance :: "exception \<Rightarrow> exception \<Rightarrow> bool" where
  "isinstance e HandlerException =
     (e = HandlerException \<or> e = AckMessage \<or> e = NackMessage \<or> e = RejectMessage)"
| "isinstance e cls = (e = cls)"


section \<open>The standard library's Counter\<close>

text \<open>
  \<^verbatim>\<open>collections.Counter\<close> is a dict whose \<^verbatim>\<open>__missing__\<close> returns 0 without storing
  the key. \<^verbatim>\<open>__iadd__\<close> adds the other counter's items and then runs
  \<^verbatim>\<open>_keep_positive\<close>, which deletes every key whose count is not \<^verbatim>\<open>> 0\<close>.
\<close>

type_synonym Counter = "string \<rightharpoonup> int"

definition Counter_getitem :: "Counter \<Rightarrow> string \<Rightarrow> int" where
  "Counter_getitem c k = (case c k of None \<Rightarrow> 0 | Some n \<Rightarrow> n)"

definition keep_positive :: "Counter \<Rightarrow> Counter" where
  "keep_positive c =
     (\<lambda>k. case c k of None \<Rightarrow> None | Some n \<Rightarrow> if n > 0 then Some n else None)"

definition Counter_iadd :: "Counter \<Rightarrow> (string \<times> int) list \<Rightarrow> Counter" where
  "Counter_iadd c other_items =
     keep_positive
       (fold (\<lambda>(elem, count) s. s(elem \<mapsto> Counter_getitem s elem + count)) other_items c)"


section \<open>Watchers\<close>

text \<open>
  A logger, when configured, is the list of records it received at error level.
  \<open>AlreadyRetried n\<close> is the line \<^verbatim>\<open>Already retried {n} times. Skipped.\<close>,
  \<open>PushingBack\<close> is \<^verbatim>\<open>Error is occured. Pushing back to queue.\<close>
\<close>

datatype log_record = AlreadyRetried int | PushingBack

record BaseWatcher =
  max_tries :: int
  logger :: "log_record list option"

record CounterWatcher_obj = BaseWatcher +
  memory :: Counter

definition BaseWatcher_init :: "int \<Rightarrow> log_record list option \<Rightarrow> BaseWatcher" where
  "BaseWatcher_init mt lg = \<lparr>max_tries = mt, logger = lg\<rparr>"

subsection \<open>EndlessWatcher and OneTryWatcher\<close>

definition EndlessWatcher_add :: "string \<Rightarrow> BaseWatcher \<Rightarrow> BaseWatcher" where
  "EndlessWatcher_add message_id self = self"

definition EndlessWatcher_is_max :: "string \<Rightarrow> BaseWatcher \<Rightarrow> bool \<times> BaseWatcher" where
  "EndlessWatcher_is_max message_id self = (False, self)"

definition EndlessWatcher_remove :: "string \<Rightarrow> BaseWatcher \<Rightarrow> BaseWatcher" where
  "EndlessWatcher_remove message_id self = self"

definition OneTryWatcher_add :: "string \<Rightarrow> BaseWatcher \<Rightarrow> BaseWatcher" where
  "OneTryWatcher_add message_id self = self"

definition OneTryWatcher_is_max :: "string \<Rightarrow> BaseWatcher \<Rightarrow> bool \<times> BaseWatcher" where
  "OneTryWatcher_is_max message_id self = (True, self)"

definition OneTryWatcher_remove :: "string \<Rightarrow> BaseWatcher \<Rightarrow> BaseWatcher" where
  "OneTryWatcher_remove message_id self = self"

subsection \<open>CounterWatcher\<close>

definition CounterWatcher_init :: "int \<Rightarrow> log_record list option \<Rightarrow> CounterWatcher_obj" where
  "CounterWatcher_init mt lg = \<lparr>max_tries = mt, logger = lg, memory = Map.empty\<rparr>"

definition CounterWatcher_add :: "string \<Rightarrow> CounterWatcher_obj \<Rightarrow> CounterWatcher_obj" where
  "CounterWatcher_add message_id self =
     self\<lparr>memory := (memory self)(message_id \<mapsto> Counter_getitem (memory self) message_id + 1)\<rparr>"

definition CounterWatcher_is_max ::
  "string \<Rightarrow> CounterWatcher_obj \<Rightarrow> bool \<times> CounterWatcher_obj" where
  "CounterWatcher_is_max message_id self =
     (let is_max = Counter_getitem (memory self) message_id > max_tries self
      in case logger self of
           None \<Rightarrow> (is_max, self)
         | Some recs \<Rightarrow>
             (is_max,
              self\<lparr>logger := Some (recs @ [if is_max then AlreadyRetried (max_tries self)
                                            else PushingBack])\<rparr>))"

definition CounterWatcher_remove :: "string \<Rightarrow> CounterWatcher_obj \<Rightarrow> CounterWatcher_obj" where
  "CounterWatcher_remove message self =
     self\<lparr>memory := Counter_iadd ((memory self)(message \<mapsto> 0)) []\<rparr>"


subsection \<open>Dispatch on the watcher variant\<close>

text \<open>
  \<^verbatim>\<open>WatcherContext\<close> holds any \<^verbatim>\<open>BaseWatcher\<close>; the three subclasses of the source are
  the variants, and a method call dispatches on the variant.
\<close>

datatype watcher =
    EndlessWatcher BaseWatcher
  | OneTryWatcher BaseWatcher
  | CounterWatcher CounterWatcher_obj

fun watcher_add :: "string \<Rightarrow> watcher \<Rightarrow> watcher" where
  "watcher_add i (EndlessWatcher w) = EndlessWatcher (EndlessWatcher_add i w)"
| "watcher_add i (OneTryWatcher w) = OneTryWatcher (OneTryWatcher_add i w)"
| "watcher_add i (CounterWatcher w) = CounterWatcher (CounterWatcher_add i w)"

fun watcher_is_max :: "string \<Rightarrow> watcher \<Rightarrow> bool \<times> watcher" where
  "watcher_is_max i (EndlessWatcher w) =
     (case EndlessWatcher_is_max i w of (b, w') \<Rightarrow> (b, EndlessWatcher w'))"
| "watcher_is_max i (OneTryWatcher w) =
     (case OneTryWatcher_is_max i w of (b, w') \<Rightarrow> (b, OneTryWatcher w'))"
| "watcher_is_max i (CounterWatcher w) =
     (case CounterWatcher_is_max i w of (b, w') \<Rightarrow> (b, CounterWatcher w'))"

fun watcher_remove :: "string \<Rightarrow> watcher \<Rightarrow> watcher" where
  "watcher_remove i (EndlessWatcher w) = EndlessWatcher (EndlessWatcher_remove i w)"
| "watcher_remove i (OneTryWatcher w) = OneTryWatcher (OneTryWatcher_remove i w)"
| "watcher_remove i (CounterWatcher w) = CounterWatcher (CounterWatcher_remove i w)"

text \<open>Sequences of calls on one CounterWatcher, for statements about every history.\<close>

datatype watcher_call = Add string | IsMax string | Remove string

fun CounterWatcher_call :: "watcher_call \<Rightarrow> CounterWatcher_obj \<Rightarrow> CounterWatcher_obj" where
  "CounterWatcher_call (Add i) w = CounterWatcher_add i w"
| "CounterWatcher_call (IsMax i) w = snd (CounterWatcher_is_max i w)"
| "CounterWatcher_call (Remove i) w = CounterWatcher_remove i w"

definition CounterWatcher_calls ::
  "watcher_call list \<Rightarrow> CounterWatcher_obj \<Rightarrow> CounterWatcher_obj" where
  "CounterWatcher_calls cs w = fold CounterWatcher_call cs w"


section \<open>The message and the delivery context\<close>

text \<open>
  Modelled from the spec: the message classes of \<^verbatim>\<open>faststream.broker.message\<close> and
  \<^verbatim>\<open>call_or_await\<close> of \<^verbatim>\<open>faststream.utils.functions\<close> are not among the sources.
  By the spec a message exposes a \<^verbatim>\<open>message_id\<close> string and the operations
  acknowledge, negative-acknowledge and reject, each taking the extra arguments, each
  completing at once or asynchronously, and each able to fail, in which case the failure
  propagates. \<open>raises m op kw\<close> is the exception with which operation \<open>op\<close> of the
  message fails when called with the arguments \<open>kw\<close>, \<open>None\<close> when it completes.
\<close>

datatype operation = Ack | Nack | Reject

type_synonym 'v kwargs = "(string \<times> 'v) list"

record 'v message =
  message_id :: string
  raises :: "operation \<Rightarrow> 'v kwargs \<Rightarrow> exception option"

text \<open>
  The calls a context makes on its message and on its watcher, in the order made. The
  field \<open>trace\<close> of the context records them; it has no counterpart in the source and
  influences nothing.
\<close>

datatype 'v event =
    MessageCall operation "'v kwargs"
  | WatcherAdd string
  | WatcherIsMax string
  | WatcherRemove string

record 'v WatcherContext =
  watcher :: watcher
  message :: "'v message"
  extra_ack_args :: "'v kwargs"
  trace :: "'v event list"

definition WatcherContext_init ::
  "'v message \<Rightarrow> watcher \<Rightarrow> 'v kwargs \<Rightarrow> 'v WatcherContext" where
  "WatcherContext_init msg w extra =
     \<lparr>watcher = w, message = msg,
      extra_ack_args = (if extra \<noteq> [] then extra else []), trace = []\<rparr>"

definition call_add :: "'v WatcherContext \<Rightarrow> 'v WatcherContext" where
  "call_add self =
     self\<lparr>watcher := watcher_add (message_id (message self)) (watcher self),
          trace := trace self @ [WatcherAdd (message_id (message self))]\<rparr>"

definition call_is_max :: "'v WatcherContext \<Rightarrow> bool \<times> 'v WatcherContext" where
  "call_is_max self =
     (case watcher_is_max (message_id (message self)) (watcher self) of
        (b, w') \<Rightarrow>
          (b, self\<lparr>watcher := w',
                   trace := trace self @ [WatcherIsMax (message_id (message self))]\<rparr>))"

definition call_remove :: "'v WatcherContext \<Rightarrow> 'v WatcherContext" where
  "call_remove self =
     self\<lparr>watcher := watcher_remove (message_id (message self)) (watcher self),
          trace := trace self @ [WatcherRemove (message_id (message self))]\<rparr>"

definition call_or_await ::
  "operation \<Rightarrow> 'v WatcherContext \<Rightarrow> exception option \<times> 'v WatcherContext" where
  "call_or_await op self =
     (raises (message self) op (extra_ack_args self),
      self\<lparr>trace := trace self @ [MessageCall op (extra_ack_args self)]\<rparr>)"

text \<open>
  The three private methods. Each returns the exception it raised, if any, and the context
  as the call left it: \<^verbatim>\<open>__ack\<close> and \<^verbatim>\<open>__reject\<close> reach \<^verbatim>\<open>watcher.remove\<close> only when
  the message operation completed.
\<close>

definition WatcherContext_ack ::
  "'v WatcherContext \<Rightarrow> exception option \<times> 'v WatcherContext" where
  "WatcherContext_ack self =
     (case call_or_await Ack self of
        (Some err, self') \<Rightarrow> (Some err, self')
      | (None, self') \<Rightarrow> (None, call_remove self'))"

definition WatcherContext_nack ::
  "'v WatcherContext \<Rightarrow> exception option \<times> 'v WatcherContext" where
  "WatcherContext_nack self = call_or_await Nack self"

definition WatcherContext_reject ::
  "'v WatcherContext \<Rightarrow> exception option \<times> 'v WatcherContext" where
  "WatcherContext_reject self =
     (case call_or_await Reject self of
        (Some err, self') \<Rightarrow> (Some err, self')
      | (None, self') \<Rightarrow> (None, call_remove self'))"

definition WatcherContext_aenter :: "'v WatcherContext \<Rightarrow> 'v WatcherContext" where
  "WatcherContext_aenter self = call_add self"

text \<open>
  \<^verbatim>\<open>__aexit__\<close> receives the exception that left the body, \<open>None\<close> when the body returned.
  Its result is \<open>Inr b\<close> when it returns \<open>b\<close> and \<open>Inl err\<close> when a message operation
  raised \<open>err\<close> inside it.
\<close>

definition finish ::
  "bool \<Rightarrow> exception option \<times> 'v WatcherContext \<Rightarrow> (exception + bool) \<times> 'v WatcherContext" where
  "finish b r = (case r of (Some err, self') \<Rightarrow> (Inl err, self') | (None, self') \<Rightarrow> (Inr b, self'))"

definition WatcherContext_aexit ::
  "exception option \<Rightarrow> 'v WatcherContext \<Rightarrow> (exception + bool) \<times> 'v WatcherContext" where
  "WatcherContext_aexit exc self =
     (case exc of
        None \<Rightarrow> finish False (WatcherContext_ack self)
      | Some exc_val \<Rightarrow>
          if isinstance exc_val SkipMessage then
            (Inr False, call_remove self)
          else if isinstance exc_val HandlerException then
            (if isinstance exc_val AckMessage then
               finish True (WatcherContext_ack self)
             else if isinstance exc_val NackMessage then
               (case call_is_max self of
                  (True, self') \<Rightarrow> finish True (WatcherContext_reject self')
                | (False, self') \<Rightarrow> finish True (WatcherContext_nack self'))
             else if isinstance exc_val RejectMessage then
               finish True (WatcherContext_reject self)
             else
               (Inr True, self))
          else
            (case call_is_max self of
               (True, self') \<Rightarrow> finish False (WatcherContext_reject self')
             | (False, self') \<Rightarrow> finish False (WatcherContext_nack self')))"

text \<open>
  The \<^verbatim>\<open>async with\<close> statement around a handler: enter, run the body, exit. \<open>body\<close> is
  the exception the handler raised, \<open>None\<close> when it returned. The statement re-raises the
  body's exception exactly when \<^verbatim>\<open>__aexit__\<close> returns a false value, and an exception raised
  by \<^verbatim>\<open>__aexit__\<close> itself replaces it.
\<close>

datatype outcome = Returned | Raised exception

definition async_with ::
  "'v WatcherContext \<Rightarrow> exception option \<Rightarrow> outcome \<times> 'v WatcherContext" where
  "async_with ctx body =
     (case WatcherContext_aexit body (WatcherContext_aenter ctx) of
        (Inl err, ctx') \<Rightarrow> (Raised err, ctx')
      | (Inr suppress, ctx') \<Rightarrow>
          (case body of
             None \<Rightarrow> (Returned, ctx')
           | Some exc_val \<Rightarrow> (if suppress then Returned else Raised exc_val, ctx')))"

text \<open>
  One delivery: a context is built for the message around the shared watcher, and the
  handler runs inside it. The result is what the consumer sees, the calls made, and the
  watcher afterwards.
\<close>

definition deliver ::
  "'v message \<Rightarrow> 'v kwargs \<Rightarrow> exception option \<Rightarrow> watcher
     \<Rightarrow> outcome \<times> 'v event list \<times> watcher" where
  "deliver msg extra body w =
     (case async_with (WatcherContext_init msg w extra) body of
        (out, ctx') \<Rightarrow> (out, trace ctx', watcher ctx'))"

subsection \<open>Observations on a run\<close>

text \<open>
  The calls made during one \<^verbatim>\<open>__aexit__\<close>, its result, and the projections of a trace
  on the message operations (the terminal actions, with their arguments) and on the
  watcher calls.
\<close>

definition exit_events :: "exception option \<Rightarrow> 'v WatcherContext \<Rightarrow> 'v event list" where
  "exit_events exc self = drop (length (trace self)) (trace (snd (WatcherContext_aexit exc self)))"

definition exit_result :: "exception option \<Rightarrow> 'v WatcherContext \<Rightarrow> exception + bool" where
  "exit_result exc self = fst (WatcherContext_aexit exc self)"

definition exit_watcher :: "exception option \<Rightarrow> 'v WatcherContext \<Rightarrow> watcher" where
  "exit_watcher exc self = watcher (snd (WatcherContext_aexit exc self))"

fun message_calls :: "'v event list \<Rightarrow> (operation \<times> 'v kwargs) list" where
  "message_calls [] = []"
| "message_calls (MessageCall op kw # es) = (op, kw) # message_calls es"
| "message_calls (e # es) = message_calls es"

fun watcher_calls :: "'v event list \<Rightarrow> watcher_call list" where
  "watcher_calls [] = []"
| "watcher_calls (WatcherAdd i # es) = Add i # watcher_calls es"
| "watcher_calls (WatcherIsMax i # es) = IsMax i # watcher_calls es"
| "watcher_calls (WatcherRemove i # es) = Remove i # watcher_calls es"
| "watcher_calls (e # es) = watcher_calls es"

text \<open>What \<^verbatim>\<open>watcher.is_max(message.message_id)\<close> answers when the context asks.\<close>

definition exhausted :: "'v WatcherContext \<Rightarrow> bool" where
  "exhausted self = fst (watcher_is_max (message_id (message self)) (watcher self))"

text \<open>The attempt counts a watcher holds; only a CounterWatcher has any.\<close>

fun watcher_memory :: "watcher \<Rightarrow> Counter option" where
  "watcher_memory (CounterWatcher w) = Some (memory w)"
| "watcher_memory _ = None"

text \<open>A message whose three operations always complete, and one whose operations all fail.\<close>

definition completing :: "operation \<Rightarrow> 'v kwargs \<Rightarrow> exception option" where
  "completing op kw = None"

definition failing :: "operation \<Rightarrow> 'v kwargs \<Rightarrow> exception option" where
  "failing op kw = Some (OtherException ''ConnectionError'')"

text \<open>
  A concrete delivery: a message with id \<open>m1\<close> whose operations complete, in a context
  around a fresh CounterWatcher with \<open>max_tries = 3\<close> and no logger, already entered.
\<close>

definition sample_message :: "bool message" where
  "sample_message = \<lparr>message_id = ''m1'', raises = completing\<rparr>"

definition sample_context :: "bool WatcherContext" where
  "sample_context =
     WatcherContext_aenter
       (WatcherContext_init sample_message (CounterWatcher (CounterWatcher_init 3 None))
          [(''multiple'', True)])"

text \<open>Every key of the mapping has a strictly positive count.\<close>

definition positive_memory :: "CounterWatcher_obj \<Rightarrow> bool" where
  "positive_memory w = (\<forall>k n. memory w k = Some n \<longrightarrow> 0 < n)"


section \<open>Properties of CounterWatcher\<close>

lemma memory_add:
  "memory (CounterWatcher_add i w) = (memory w)(i \<mapsto> Counter_getitem (memory w) i + 1)"
  by (simp add: CounterWatcher_add_def)

lemma max_tries_add: "max_tries (CounterWatcher_add i w) = max_tries w"
  by (simp add: CounterWatcher_add_def)

lemma max_tries_add_times: "max_tries ((CounterWatcher_add i ^^ n) w) = max_tries w"
  by (induction n) (simp_all add: max_tries_add)

lemma count_add_times:
  "Counter_getitem (memory ((CounterWatcher_add i ^^ n) w)) i
     = Counter_getitem (memory w) i + int n"
  by (induction n) (simp_all add: memory_add Counter_getitem_def)

lemma fst_is_max:
  "fst (CounterWatcher_is_max i w) = (Counter_getitem (memory w) i > max_tries w)"
  by (simp add: CounterWatcher_is_max_def Let_def split: option.split)

text \<open>
  C1. On a freshly created CounterWatcher with \<open>max_tries = K\<close>, after \<open>N\<close> calls of
  \<open>add\<close> for a message id and no \<open>remove\<close>, \<open>is_max\<close> for that id returns true
  if and only if \<open>N > K\<close>. This holds for every integer \<open>K\<close>, the non-negative ones
  included, and with or without a logger.
\<close>

theorem C1_is_max_after_adds:
  "fst (CounterWatcher_is_max i
          ((CounterWatcher_add i ^^ N) (CounterWatcher_init K lg)))
     = (int N > K)"
proof -
  have "Counter_getitem (memory (CounterWatcher_init K lg)) i = 0"
    by (simp add: CounterWatcher_init_def Counter_getitem_def)
  moreover have "max_tries (CounterWatcher_init K lg) = K"
    by (simp add: CounterWatcher_init_def)
  ultimately show ?thesis
    by (simp add: fst_is_max count_add_times max_tries_add_times)
qed

lemma memory_remove:
  "memory (CounterWatcher_remove i w) = keep_positive ((memory w)(i \<mapsto> 0))"
  by (simp add: CounterWatcher_remove_def Counter_iadd_def)

lemma keep_positive_Some:
  "keep_positive c k = Some n \<longleftrightarrow> c k = Some n \<and> 0 < n"
  by (auto simp: keep_positive_def split: option.splits if_splits)

lemma keep_positive_None:
  "keep_positive c k = None \<longleftrightarrow> (\<forall>n. c k = Some n \<longrightarrow> n \<le> 0)"
  by (auto simp: keep_positive_def split: option.splits if_splits)

lemma memory_is_max: "memory (snd (CounterWatcher_is_max i w)) = memory w"
  by (simp add: CounterWatcher_is_max_def Let_def split: option.split)

lemma positive_init: "positive_memory (CounterWatcher_init K lg)"
  by (simp add: positive_memory_def CounterWatcher_init_def)

lemma positive_add:
  assumes "positive_memory w"
  shows "positive_memory (CounterWatcher_add i w)"
proof -
  have pos: "memory w k = Some n \<Longrightarrow> 0 < n" for k n
    using assms by (simp add: positive_memory_def)
  have "0 \<le> Counter_getitem (memory w) i"
  proof (cases "memory w i")
    case None
    then show ?thesis by (simp add: Counter_getitem_def)
  next
    case (Some n)
    with pos [of i n] show ?thesis by (simp add: Counter_getitem_def)
  qed
  then show ?thesis
    using pos by (auto simp: positive_memory_def memory_add split: if_splits)
qed

lemma positive_is_max: "positive_memory w \<Longrightarrow> positive_memory (snd (CounterWatcher_is_max i w))"
  by (simp add: positive_memory_def memory_is_max)

lemma positive_remove: "positive_memory (CounterWatcher_remove i w)"
  by (simp add: positive_memory_def memory_remove keep_positive_Some)

lemma positive_call: "positive_memory w \<Longrightarrow> positive_memory (CounterWatcher_call c w)"
  by (cases c) (simp_all add: positive_add positive_is_max positive_remove)

lemma positive_fold: "positive_memory w \<Longrightarrow> positive_memory (fold CounterWatcher_call cs w)"
  by (induction cs arbitrary: w) (simp_all add: positive_call)

text \<open>
  C10. Every key of a CounterWatcher's memory has a strictly positive count after any
  sequence of \<open>add\<close>, \<open>is_max\<close> and \<open>remove\<close> calls on a fresh watcher; each of the
  three operations preserves this; and \<open>remove\<close> evicts the id's entry together with any
  other non-positive entry, from whatever state it is called in.
\<close>

theorem C10_positive_counts:
  "positive_memory (CounterWatcher_calls cs (CounterWatcher_init K lg))
   \<and> (positive_memory w \<longrightarrow> positive_memory (CounterWatcher_call c w))
   \<and> i \<notin> dom (memory (CounterWatcher_remove i w))
   \<and> positive_memory (CounterWatcher_remove i w)"
  by (simp add: CounterWatcher_calls_def positive_fold positive_init positive_call
      positive_remove memory_remove keep_positive_None domIff)

theorem C10_positive_counts_witness:
  "positive_memory (CounterWatcher_add ''a'' (CounterWatcher_init 3 None))
   \<and> positive_memory (CounterWatcher_call (Remove ''a'') (CounterWatcher_add ''a'' (CounterWatcher_init 3 None)))
   \<and> memory (CounterWatcher_calls [Add ''a'', Add ''b'', IsMax ''a'', Add ''a'', Remove ''b'']
             (CounterWatcher_init 3 None)) ''a'' = Some 2
   \<and> memory (CounterWatcher_calls [Add ''a'', Add ''b'', IsMax ''a'', Add ''a'', Remove ''b'']
             (CounterWatcher_init 3 None)) ''b'' = None"
  using C10_positive_counts [of "[]" 3 None "CounterWatcher_add ''a'' (CounterWatcher_init 3 None)"
      "Remove ''a''" "''a''"]
  by (simp add: positive_memory_def CounterWatcher_calls_def CounterWatcher_add_def
      CounterWatcher_is_max_def CounterWatcher_remove_def CounterWatcher_init_def
      Counter_iadd_def keep_positive_def Counter_getitem_def)

text \<open>
  C9. \<open>is_max\<close> leaves the attempt-count mapping as it was, for an id that is a key and
  for one that is not: nothing is inserted and no count changes. The only change to the
  watcher is the record appended to the logger, when a logger is configured.
\<close>

theorem C9_is_max_leaves_memory:
  "memory (snd (CounterWatcher_is_max i w)) = memory w
   \<and> snd (CounterWatcher_is_max i w) =
       w\<lparr>logger := map_option
            (\<lambda>recs. recs @ [if fst (CounterWatcher_is_max i w) then AlreadyRetried (max_tries w)
                             else PushingBack])
            (logger w)\<rparr>"
  by (simp add: CounterWatcher_is_max_def Let_def split: option.split)

text \<open>
  C4, as stated, fails: after one \<open>add\<close> and one \<open>remove\<close> for an id the mapping does
  not hold the id with count 0; the key is gone and the key set has shrunk.
\<close>

theorem C4_remove_keeps_key_counterexample:
  "memory (CounterWatcher_add ''m1'' (CounterWatcher_init 3 None)) ''m1'' = Some 1
   \<and> memory (CounterWatcher_remove ''m1'' (CounterWatcher_add ''m1'' (CounterWatcher_init 3 None))) ''m1''
       \<noteq> Some 0
   \<and> ''m1'' \<notin> dom (memory (CounterWatcher_remove ''m1''
                               (CounterWatcher_add ''m1'' (CounterWatcher_init 3 None))))
   \<and> \<not> dom (memory (CounterWatcher_add ''m1'' (CounterWatcher_init 3 None)))
         \<subseteq> dom (memory (CounterWatcher_remove ''m1''
                               (CounterWatcher_add ''m1'' (CounterWatcher_init 3 None))))"
  by (simp add: CounterWatcher_add_def CounterWatcher_remove_def CounterWatcher_init_def
      Counter_iadd_def keep_positive_def Counter_getitem_def domIff)

text \<open>
  C4, amended. After \<open>remove\<close> for an id the count read for that id is zero and the
  id's entry is deleted from the mapping: the id is no longer a key, and \<open>remove\<close> adds
  no key.
\<close>

theorem C4_remove_deletes_key:
  "Counter_getitem (memory (CounterWatcher_remove i w)) i = 0
   \<and> memory (CounterWatcher_remove i w) i = None
   \<and> dom (memory (CounterWatcher_remove i w)) \<subseteq> dom (memory w) - {i}"
  by (auto simp: memory_remove Counter_getitem_def keep_positive_def domIff
      split: option.splits if_splits)


section \<open>Properties of the delivery context\<close>

lemmas ctx_defs =
  WatcherContext_aexit_def finish_def WatcherContext_ack_def WatcherContext_nack_def
  WatcherContext_reject_def call_or_await_def call_remove_def call_is_max_def
  exit_events_def exit_result_def exit_watcher_def exhausted_def

lemmas sample_defs =
  sample_context_def sample_message_def completing_def WatcherContext_aenter_def
  WatcherContext_init_def call_add_def CounterWatcher_init_def CounterWatcher_add_def
  CounterWatcher_is_max_def CounterWatcher_remove_def Counter_getitem_def

lemma watcher_memory_is_max: "watcher_memory (snd (watcher_is_max i w)) = watcher_memory w"
  by (cases w)
    (simp_all add: EndlessWatcher_is_max_def OneTryWatcher_is_max_def memory_is_max
      split_beta)

lemma watcher_memory_is_max':
  "watcher_is_max i w = (b, w') \<Longrightarrow> watcher_memory w' = watcher_memory w"
  using watcher_memory_is_max [of i w] by simp

lemma ack_failure_propagates:
  "exit_result None (self\<lparr>message := \<lparr>message_id = i, raises = failing\<rparr>\<rparr>)
     = Inl (OtherException ''ConnectionError'')
   \<and> watcher_calls (exit_events None (self\<lparr>message := \<lparr>message_id = i, raises = failing\<rparr>\<rparr>))
     = []"
  by (simp add: ctx_defs failing_def)

text \<open>
  C7. When the handler returns normally, the exit invokes the message's acknowledge
  operation exactly once, with \<open>extra_ack_args\<close>, and invokes neither nack nor reject,
  whatever the watcher. Once the acknowledge operation has completed, \<open>watcher.remove\<close>
  is called for the message id and is the only other call made. (An acknowledge operation
  that raises propagates its exception before \<open>remove\<close> is reached.)
\<close>

theorem C7_normal_return_acks_once:
  "message_calls (exit_events None self) = [(Ack, extra_ack_args self)]
   \<and> (raises (message self) Ack (extra_ack_args self) = None \<longrightarrow>
        exit_events None self =
          [MessageCall Ack (extra_ack_args self), WatcherRemove (message_id (message self))]
        \<and> exit_watcher None self = watcher_remove (message_id (message self)) (watcher self)
        \<and> exit_result None self = Inr False)"
  by (simp add: ctx_defs split: option.split)

theorem C7_normal_return_acks_once_witness:
  "raises (message sample_context) Ack (extra_ack_args sample_context) = None
   \<and> exit_events None sample_context = [MessageCall Ack [(''multiple'', True)], WatcherRemove ''m1'']
   \<and> exit_result None sample_context = Inr False"
  using C7_normal_return_acks_once [of sample_context]
  by (simp add: sample_defs)

text \<open>
  C3, as stated, fails in its last part: on \<open>SkipMessage\<close> the exit returns \<open>False\<close>, so
  the signal is not suppressed and leaves the scope.
\<close>

theorem C3_skip_suppressed_counterexample:
  "message_calls (exit_events (Some SkipMessage) sample_context) = []
   \<and> exit_result (Some SkipMessage) sample_context = Inr False
   \<and> fst (async_with (WatcherContext_init sample_message
                         (CounterWatcher (CounterWatcher_init 3 None)) [])
             (Some SkipMessage)) = Raised SkipMessage"
  by (simp add: ctx_defs async_with_def sample_defs)

text \<open>
  C3, amended. On \<open>SkipMessage\<close> no ack, nack or reject operation is invoked,
  \<open>watcher.remove\<close> for the message id is the only call the exit makes, and the exit
  returns \<open>False\<close>: the signal is not suppressed and propagates out of the scope.
\<close>

theorem C3_skip_removes_and_propagates:
  "exit_events (Some SkipMessage) self = [WatcherRemove (message_id (message self))]
   \<and> message_calls (exit_events (Some SkipMessage) self) = []
   \<and> exit_watcher (Some SkipMessage) self = watcher_remove (message_id (message self)) (watcher self)
   \<and> exit_result (Some SkipMessage) self = Inr False
   \<and> fst (async_with self (Some SkipMessage)) = Raised SkipMessage"
  by (simp add: ctx_defs async_with_def WatcherContext_aenter_def call_add_def)

text \<open>
  C8. On \<open>NackMessage\<close> the exit invokes exactly one message operation: reject when
  \<open>watcher.is_max\<close> answers true for the message id, nack otherwise. It returns \<open>True\<close>
  (the signal is suppressed) in either case once that operation has completed. On the nack
  path the only watcher call is \<open>is_max\<close>: \<open>remove\<close> is not called and the attempt
  counts are as they were.
\<close>

theorem C8_nack_signal:
  "message_calls (exit_events (Some NackMessage) self)
     = [(if exhausted self then Reject else Nack, extra_ack_args self)]
   \<and> exit_result (Some NackMessage) self
     = (case raises (message self) (if exhausted self then Reject else Nack)
               (extra_ack_args self) of
          None \<Rightarrow> Inr True | Some err \<Rightarrow> Inl err)
   \<and> (\<not> exhausted self \<longrightarrow>
        watcher_calls (exit_events (Some NackMessage) self) = [IsMax (message_id (message self))]
        \<and> watcher_memory (exit_watcher (Some NackMessage) self) = watcher_memory (watcher self))"
  by (auto simp: ctx_defs watcher_memory_is_max' split: option.split prod.split bool.split)

theorem C8_nack_signal_witness:
  "\<not> exhausted sample_context
   \<and> exit_events (Some NackMessage) sample_context
       = [WatcherIsMax ''m1'', MessageCall Nack [(''multiple'', True)]]
   \<and> exit_result (Some NackMessage) sample_context = Inr True
   \<and> watcher_memory (exit_watcher (Some NackMessage) sample_context) = Some [''m1'' \<mapsto> 1]"
  using C8_nack_signal [of sample_context]
  by (simp add: ctx_defs sample_defs)

text \<open>
  C2, as stated, fails for an instance of the base class \<open>HandlerException\<close> that is none
  of the ack, nack and reject signals: it is not one of the four outcome signals, yet the
  exit performs no terminal action and returns \<open>True\<close>, so nothing reaches the caller.
\<close>

theorem C2_other_exception_counterexample:
  "HandlerException \<noteq> SkipMessage \<and> HandlerException \<noteq> AckMessage
   \<and> HandlerException \<noteq> NackMessage \<and> HandlerException \<noteq> RejectMessage
   \<and> exit_events (Some HandlerException) sample_context = []
   \<and> exit_result (Some HandlerException) sample_context = Inr True
   \<and> fst (async_with (WatcherContext_init sample_message
                         (CounterWatcher (CounterWatcher_init 3 None)) [])
             (Some HandlerException)) = Returned"
  by (simp add: ctx_defs async_with_def sample_defs)

text \<open>
  C2, amended. When the handler raised an exception that is neither \<open>SkipMessage\<close> nor an
  instance of \<open>HandlerException\<close>, the exit invokes exactly one message operation,
  reject if \<open>watcher.is_max\<close> answers true for the message id and nack otherwise, and
  returns \<open>False\<close> once that operation has completed: the exception is not suppressed,
  and the scope never ends by returning.
\<close>

theorem C2_other_exception:
  assumes "\<not> isinstance exc SkipMessage" and "\<not> isinstance exc HandlerException"
  shows "message_calls (exit_events (Some exc) self)
           = [(if exhausted self then Reject else Nack, extra_ack_args self)]
         \<and> exit_result (Some exc) self
           = (case raises (message self) (if exhausted self then Reject else Nack)
                     (extra_ack_args self) of
                None \<Rightarrow> Inr False | Some err \<Rightarrow> Inl err)
         \<and> fst (async_with self (Some exc)) \<noteq> Returned"
proof -
  from assms obtain name where exc: "exc = OtherException name"
    by (cases exc) simp_all
  show ?thesis
    unfolding exc
    by (auto simp: ctx_defs async_with_def split: option.split prod.split bool.split)
qed

theorem C2_other_exception_witness:
  "\<not> isinstance (OtherException ''RuntimeError'') SkipMessage
   \<and> \<not> isinstance (OtherException ''RuntimeError'') HandlerException
   \<and> \<not> exhausted sample_context
   \<and> message_calls (exit_events (Some (OtherException ''RuntimeError'')) sample_context)
       = [(Nack, [(''multiple'', True)])]
   \<and> exit_result (Some (OtherException ''RuntimeError'')) sample_context = Inr False"
  using C2_other_exception [of "OtherException ''RuntimeError''" sample_context]
  by (simp add: exhausted_def sample_defs)

text \<open>
  C5, as stated, fails on the \<open>SkipMessage\<close> path: no terminal action is performed.
\<close>

theorem C5_one_terminal_action_counterexample:
  "length (message_calls (exit_events (Some SkipMessage) sample_context)) = 0"
  by (simp add: ctx_defs sample_defs)

lemma one_call_None: "length (message_calls (exit_events None self)) = 1"
  by (simp add: ctx_defs split: option.split)

lemma one_call_Ack: "length (message_calls (exit_events (Some AckMessage) self)) = 1"
  by (simp add: ctx_defs split: option.split)

lemma one_call_Nack: "length (message_calls (exit_events (Some NackMessage) self)) = 1"
  by (simp add: ctx_defs split: option.split prod.split bool.split)

lemma one_call_Reject: "length (message_calls (exit_events (Some RejectMessage) self)) = 1"
  by (simp add: ctx_defs split: option.split)

lemma one_call_Other:
  "length (message_calls (exit_events (Some (OtherException name)) self)) = 1"
  by (simp add: ctx_defs split: option.split prod.split bool.split)

lemma no_call_Skip: "message_calls (exit_events (Some SkipMessage) self) = []"
  by (simp add: ctx_defs)

lemma no_call_Handler: "message_calls (exit_events (Some HandlerException) self) = []"
  by (simp add: ctx_defs)

lemma at_most_one_call: "length (message_calls (exit_events exc self)) \<le> 1"
proof (cases exc)
  case None
  then show ?thesis by (simp add: one_call_None)
next
  case (Some e)
  then show ?thesis
    by (cases e)
      (simp_all add: one_call_Ack one_call_Nack one_call_Reject one_call_Other
        no_call_Skip no_call_Handler)
qed

text \<open>
  C5, amended. Every exit performs at most one terminal action. It performs exactly one
  on a normal return, on each of \<open>AckMessage\<close>, \<open>NackMessage\<close> and \<open>RejectMessage\<close>,
  and on an exception outside the taxonomy; it performs none on \<open>SkipMessage\<close>.
\<close>

theorem C5_terminal_actions:
  "length (message_calls (exit_events exc self)) \<le> 1
   \<and> length (message_calls (exit_events None self)) = 1
   \<and> length (message_calls (exit_events (Some AckMessage) self)) = 1
   \<and> length (message_calls (exit_events (Some NackMessage) self)) = 1
   \<and> length (message_calls (exit_events (Some RejectMessage) self)) = 1
   \<and> length (message_calls (exit_events (Some (OtherException name)) self)) = 1
   \<and> length (message_calls (exit_events (Some SkipMessage) self)) = 0"
  using at_most_one_call [of exc self]
  by (simp add: one_call_None one_call_Ack one_call_Nack one_call_Reject
      one_call_Other no_call_Skip)

text \<open>
  C6. With a CounterWatcher of \<open>max_tries = 2\<close>, three deliveries for one message id
  whose handler raises a plain exception each time: the first two exits invoke nack and
  nothing else on the message, the third invokes reject, and an exception leaves each of
  the three scopes: the handler's own whenever the message operation completed.
\<close>

theorem C6_three_deliveries:
  "(let w0 = CounterWatcher (CounterWatcher_init 2 lg);
        (out1, tr1, w1) = deliver \<lparr>message_id = i, raises = r1\<rparr> kw (Some (OtherException name)) w0;
        (out2, tr2, w2) = deliver \<lparr>message_id = i, raises = r2\<rparr> kw (Some (OtherException name)) w1;
        (out3, tr3, w3) = deliver \<lparr>message_id = i, raises = r3\<rparr> kw (Some (OtherException name)) w2
    in message_calls tr1 = [(Nack, kw)]
       \<and> message_calls tr2 = [(Nack, kw)]
       \<and> message_calls tr3 = [(Reject, kw)]
       \<and> out1 = Raised (case r1 Nack kw of None \<Rightarrow> OtherException name | Some err \<Rightarrow> err)
       \<and> out2 = Raised (case r2 Nack kw of None \<Rightarrow> OtherException name | Some err \<Rightarrow> err)
       \<and> out3 = Raised (case r3 Reject kw of None \<Rightarrow> OtherException name | Some err \<Rightarrow> err))"
  by (simp add: deliver_def async_with_def ctx_defs WatcherContext_aenter_def
      WatcherContext_init_def call_add_def CounterWatcher_init_def CounterWatcher_add_def
      CounterWatcher_is_max_def CounterWatcher_remove_def Counter_getitem_def Let_def
      split: option.split)

end
